theory Spec2Isabelle
  imports Main
begin

section \<open>Strings, streams and the numeric parse\<close>

text \<open>
  Values are \<^verbatim>\<open>std::string\<close>s: lists of 8-bit characters. Integer fields of the
  source (\<^verbatim>\<open>int line\<close>, \<^verbatim>\<open>int hitCount\<close>, \<^verbatim>\<open>int accessCount\<close>) are modelled as
  \<open>int\<close>: the only arithmetic on them is \<^verbatim>\<open>++\<close>, whose signed overflow is undefined
  in C++ and would need \<open>2^31\<close> calls; the model describes every run below that.
  Terminal output, the randomly drawn \<^verbatim>\<open>simulatedAddress\<close>, the memory simulation
  (\<^verbatim>\<open>generateMemorySimulation\<close>: size, random padding, hex dump), the constant
  \<^verbatim>\<open>refCount\<close>, the never written \<^verbatim>\<open>arrayElements\<close> and the \<^verbatim>\<open>watchedVariables\<close>
  lists are display only and are left out of the records. The field \<^verbatim>\<open>value\<close> is
  written \<open>value'\<close>, and parameters named like a field are abbreviated (\<open>nm\<close>, \<open>ln\<close>,
  \<open>sc\<close>).
\<close>

definition isspace :: "char \<Rightarrow> bool" where
  \<comment> \<open>\<^verbatim>\<open>std::isspace\<close> in the "C" locale: space, \<^verbatim>\<open>\t \n \v \f \r\<close>.\<close>
  "isspace c = (c = CHR 0x20 \<or> c = CHR 0x09 \<or> c = CHR 0x0A \<or> c = CHR 0x0B
                \<or> c = CHR 0x0C \<or> c = CHR 0x0D)"

definition isdigit :: "char \<Rightarrow> bool" where
  "isdigit c = (c \<in> set ''0123456789'')"

text \<open>
  \<^verbatim>\<open>std::istringstream iss(s); while (iss >> element) ...\<close>: each extraction skips
  leading whitespace and reads up to the next whitespace; it fails when only whitespace
  is left. \<open>stream_tokens s\<close> is the sequence of strings the successive extractions
  deliver.
\<close>

function stream_tokens :: "string \<Rightarrow> string list" where
  "stream_tokens s =
     (let s1 = dropWhile isspace s in
      if s1 = [] then []
      else takeWhile (\<lambda>c. \<not> isspace c) s1 # stream_tokens (dropWhile (\<lambda>c. \<not> isspace c) s1))"
  by pat_completeness auto
termination
proof (relation "measure length")
  show "wf (measure length)" by simp
next
  fix s s1 :: string
  assume s1: "s1 = dropWhile isspace s" and ne: "s1 \<noteq> []"
  from ne obtain c cs where cs: "s1 = c # cs" by (cases s1) auto
  from s1 ne have "\<not> isspace (hd s1)" by (simp add: hd_dropWhile)
  with cs have "dropWhile (\<lambda>c. \<not> isspace c) s1 = dropWhile (\<lambda>c. \<not> isspace c) cs" by simp
  then have "length (dropWhile (\<lambda>c. \<not> isspace c) s1) \<le> length cs"
    by (simp add: length_dropWhile_le)
  also have "length cs < length s1" using cs by simp
  also have "length s1 \<le> length s" using s1 by (simp add: length_dropWhile_le)
  finally show "(dropWhile (\<lambda>c. \<not> isspace c) s1, s) \<in> measure length" by simp
qed

declare stream_tokens.simps [simp del]

text \<open>
  \<^verbatim>\<open>std::stod\<close> is the standard library's. It calls \<^verbatim>\<open>strtod\<close>, throws
  \<^verbatim>\<open>std::invalid_argument\<close> when no prefix of the string converts, and throws
  \<^verbatim>\<open>std::out_of_range\<close> when \<^verbatim>\<open>strtod\<close> reports \<^verbatim>\<open>ERANGE\<close>. A prefix converts (the
  source never changes the "C" locale) when, after leading whitespace and an optional
  sign, the string goes on with a digit, with a point and a digit, or with \<^verbatim>\<open>inf\<close> or
  \<^verbatim>\<open>nan\<close> in any case. (A hexadecimal literal starts with the digit \<^verbatim>\<open>0\<close>.)
  Whether the magnitude is in the range of \<^verbatim>\<open>double\<close> is floating-point arithmetic of
  the platform, not code of this repository: it is the parameter \<open>erange\<close> of the
  model, the set of strings for which \<^verbatim>\<open>strtod\<close> reports \<^verbatim>\<open>ERANGE\<close>.
\<close>

definition is_inf_nan :: "string \<Rightarrow> bool" where
  "is_inf_nan s =
     (case s of
        a # b # c # _ \<Rightarrow>
          (a \<in> set ''iI'' \<and> b \<in> set ''nN'' \<and> c \<in> set ''fF'') \<or>
          (a \<in> set ''nN'' \<and> b \<in> set ''aA'' \<and> c \<in> set ''nN'')
      | _ \<Rightarrow> False)"

definition strtod_converts :: "string \<Rightarrow> bool" where
  "strtod_converts s =
     (let s1 = dropWhile isspace s;
          s2 = (case s1 of [] \<Rightarrow> [] | c # cs \<Rightarrow> if c = CHR ''+'' \<or> c = CHR ''-'' then cs else s1)
      in case s2 of
           [] \<Rightarrow> False
         | c # cs \<Rightarrow>
             isdigit c
             \<or> (c = CHR ''.'' \<and> (case cs of [] \<Rightarrow> False | d # _ \<Rightarrow> isdigit d))
             \<or> is_inf_nan s2)"

datatype stod_result = Converted | Invalid_argument | Out_of_range

definition stod :: "(string \<Rightarrow> bool) \<Rightarrow> string \<Rightarrow> stod_result" where
  "stod erange s =
     (if \<not> strtod_converts s then Invalid_argument
      else if erange s then Out_of_range
      else Converted)"

definition erange_never :: "string \<Rightarrow> bool" where
  \<comment> \<open>The range check of a platform on which no string is out of range; it instantiates
      \<open>erange\<close> in the closed examples below, whose values are short literals.\<close>
  "erange_never s = False"

section \<open>EnhancedVariableInfo\<close>

record EnhancedVariableInfo =
  name :: string
  value' :: string
  previousValue :: string
  type :: string
  scope :: string
  lastModifiedLine :: int
  accessCount :: int
  isArray :: bool
  isList :: bool
  isDictionary :: bool
  isNumeric :: bool
  isEmpty :: bool
  listElements :: "string list"
  dictElements :: "string \<rightharpoonup> string"
  valueHistory :: "string list"

definition isNumericValue :: "(string \<Rightarrow> bool) \<Rightarrow> string \<Rightarrow> bool" where
  \<comment> \<open>\<^verbatim>\<open>try { std::stod(val); return true; } catch (...) { return false; }\<close>\<close>
  "isNumericValue erange val =
     (if val = [] then False
      else case stod erange val of Converted \<Rightarrow> True | _ \<Rightarrow> False)"

definition strip_braces :: "string \<Rightarrow> string" where
  \<comment> \<open>\<^verbatim>\<open>if (s.front() == '{' && s.back() == '}') s = s.substr(1, s.length() - 2);\<close>
      Every caller in the source has checked that the string is not empty.\<close>
  "strip_braces s =
     (if s \<noteq> [] \<and> hd s = CHR ''{'' \<and> last s = CHR ''}''
      then take (length s - 2) (drop 1 s) else s)"

fun read_capped :: "nat \<Rightarrow> string list \<Rightarrow> string list \<Rightarrow> string list" where
  \<comment> \<open>\<^verbatim>\<open>while (iss >> element && elements.size() < cap) elements.push_back(element);\<close>
      over the tokens the stream still holds.\<close>
  "read_capped cap [] elements = elements"
| "read_capped cap (element # rest) elements =
     (if length elements < cap then read_capped cap rest (elements @ [element]) else elements)"

fun count_capped :: "string list \<Rightarrow> int \<Rightarrow> int" where
  \<comment> \<open>\<^verbatim>\<open>while (iss >> element && elementCount < 10) elementCount++;\<close>\<close>
  "count_capped [] elementCount = elementCount"
| "count_capped (element # rest) elementCount =
     (if elementCount < 10 then count_capped rest (elementCount + 1) else elementCount)"

definition isDictionaryValue :: "string \<Rightarrow> bool" where
  "isDictionaryValue val =
     (if val = [] then False
      else let cleanVal = strip_braces val;
               elements = read_capped 20 (stream_tokens cleanVal) []
           in length elements mod 2 = 0 \<and> length elements \<ge> 2 \<and> length elements \<le> 20)"

definition isListValue :: "string \<Rightarrow> bool" where
  "isListValue val =
     (if val = [] then False
      else let trimmed = strip_braces val;
               elementCount = count_capped (stream_tokens trimmed) 0
           in elementCount > 1 \<and> \<not> isDictionaryValue val)"

definition parseList :: "EnhancedVariableInfo \<Rightarrow> EnhancedVariableInfo" where
  "parseList r = r\<lparr>listElements := stream_tokens (strip_braces (value' r))\<rparr>"

fun dict_pairs :: "string list \<Rightarrow> (string \<rightharpoonup> string) \<Rightarrow> (string \<rightharpoonup> string)" where
  \<comment> \<open>\<^verbatim>\<open>for (i = 0; i + 1 < elements.size(); i += 2) dictElements[elements[i]] = elements[i + 1];\<close>\<close>
  "dict_pairs (k # v # rest) d = dict_pairs rest (d(k \<mapsto> v))"
| "dict_pairs _ d = d"

definition parseDictionary :: "EnhancedVariableInfo \<Rightarrow> EnhancedVariableInfo" where
  "parseDictionary r =
     r\<lparr>dictElements := dict_pairs (stream_tokens (strip_braces (value' r))) Map.empty\<rparr>"

definition analyzeTypeAndStructure ::
  "(string \<Rightarrow> bool) \<Rightarrow> EnhancedVariableInfo \<Rightarrow> EnhancedVariableInfo" where
  "analyzeTypeAndStructure erange r0 =
     (let r = r0\<lparr>isArray := False, isList := False, isDictionary := False, isNumeric := False\<rparr>
      in if isEmpty r then r\<lparr>type := ''empty''\<rparr>
         else if isNumericValue erange (value' r)
           then r\<lparr>isNumeric := True,
                  type := (if CHR ''.'' \<in> set (value' r) then ''float'' else ''integer'')\<rparr>
         else if isListValue (value' r)
           then parseList (r\<lparr>isList := True, type := ''list''\<rparr>)
         else if isDictionaryValue (value' r)
           then parseDictionary (r\<lparr>isDictionary := True, type := ''dictionary''\<rparr>)
         else r\<lparr>type := ''string''\<rparr>)"

definition EnhancedVariableInfo_init ::
  "(string \<Rightarrow> bool) \<Rightarrow> string \<Rightarrow> string \<Rightarrow> string \<Rightarrow> EnhancedVariableInfo" where
  \<comment> \<open>The constructor \<^verbatim>\<open>EnhancedVariableInfo(n, v, s)\<close>.\<close>
  "EnhancedVariableInfo_init erange n v s =
     analyzeTypeAndStructure erange
       \<lparr>name = n, value' = v, previousValue = [], type = [], scope = s,
        lastModifiedLine = 0, accessCount = 0,
        isArray = False, isList = False, isDictionary = False, isNumeric = False,
        isEmpty = (v = []),
        listElements = [], dictElements = Map.empty, valueHistory = []\<rparr>"

definition updateValue ::
  "(string \<Rightarrow> bool) \<Rightarrow> string \<Rightarrow> int \<Rightarrow> EnhancedVariableInfo \<Rightarrow> EnhancedVariableInfo" where
  "updateValue erange newValue ln r =
     (let h = (if valueHistory r \<noteq> [] \<or> value' r \<noteq> newValue
               then (let h1 = valueHistory r @ [value' r]
                     in if length h1 > 10 then tl h1 else h1)
               else valueHistory r)
      in analyzeTypeAndStructure erange
           (r\<lparr>valueHistory := h, previousValue := value' r, value' := newValue,
              lastModifiedLine := ln, accessCount := accessCount r + 1,
              isEmpty := (newValue = [])\<rparr>))"

definition classify :: "(string \<Rightarrow> bool) \<Rightarrow> string \<Rightarrow> string" where
  \<comment> \<open>The type tag the constructor computes for a value (it depends on the value only).\<close>
  "classify erange v = type (EnhancedVariableInfo_init erange [] v [])"

subsection \<open>The classifier of tcl_integrated_debugger.cpp\<close>

text \<open>
  The second source file declares the same struct; its \<^verbatim>\<open>isListValue\<close> and
  \<^verbatim>\<open>isDictionaryValue\<close> differ, and \<^verbatim>\<open>analyzeTypeAndStructure\<close> asks for a dictionary
  before a list. \<^verbatim>\<open>parseList\<close>, \<^verbatim>\<open>parseDictionary\<close> and \<^verbatim>\<open>isNumericValue\<close> are the same.
\<close>

definition isDictionaryValue_integrated :: "string \<Rightarrow> bool" where
  "isDictionaryValue_integrated val =
     (if val = [] then False
      else let cleanVal = strip_braces val;
               elements = stream_tokens cleanVal
           in length elements mod 2 = 0 \<and> length elements \<ge> 2 \<and> length elements \<le> 20)"

definition isListValue_integrated :: "string \<Rightarrow> bool" where
  "isListValue_integrated val =
     (if val = [] then False
      else if (hd val = CHR ''{'' \<and> last val = CHR ''}'') \<or> CHR '' '' \<in> set val
        then \<not> isDictionaryValue_integrated val
      else False)"

definition analyzeTypeAndStructure_integrated ::
  "(string \<Rightarrow> bool) \<Rightarrow> EnhancedVariableInfo \<Rightarrow> EnhancedVariableInfo" where
  "analyzeTypeAndStructure_integrated erange r0 =
     (let r = r0\<lparr>isArray := False, isList := False, isDictionary := False, isNumeric := False\<rparr>
      in if isEmpty r then r\<lparr>type := ''empty''\<rparr>
         else if isNumericValue erange (value' r)
           then r\<lparr>isNumeric := True,
                  type := (if CHR ''.'' \<in> set (value' r) then ''float'' else ''integer'')\<rparr>
         else if isDictionaryValue_integrated (value' r)
           then parseDictionary (r\<lparr>isDictionary := True, type := ''dictionary''\<rparr>)
         else if isListValue_integrated (value' r)
           then parseList (r\<lparr>isList := True, type := ''list''\<rparr>)
         else r\<lparr>type := ''string''\<rparr>)"

definition EnhancedVariableInfo_init_integrated ::
  "(string \<Rightarrow> bool) \<Rightarrow> string \<Rightarrow> string \<Rightarrow> string \<Rightarrow> EnhancedVariableInfo" where
  "EnhancedVariableInfo_init_integrated erange n v s =
     analyzeTypeAndStructure_integrated erange
       \<lparr>name = n, value' = v, previousValue = [], type = [], scope = s,
        lastModifiedLine = 0, accessCount = 0,
        isArray = False, isList = False, isDictionary = False, isNumeric = False,
        isEmpty = (v = []),
        listElements = [], dictElements = Map.empty, valueHistory = []\<rparr>"

definition classify_integrated :: "(string \<Rightarrow> bool) \<Rightarrow> string \<Rightarrow> string" where
  "classify_integrated erange v = type (EnhancedVariableInfo_init_integrated erange [] v [])"

section \<open>EnhancedBreakpointManager\<close>

record EnhancedBreakpoint =
  line :: int
  filename :: string
  condition :: string
  enabled :: bool
  hitCount :: int
  watchVariable :: string
  memoryCondition :: string

definition EnhancedBreakpoint_init :: "int \<Rightarrow> string \<Rightarrow> string \<Rightarrow> EnhancedBreakpoint" where
  \<comment> \<open>The constructor \<^verbatim>\<open>EnhancedBreakpoint(l, file, cond)\<close>.\<close>
  "EnhancedBreakpoint_init l file cond =
     \<lparr>line = l, filename = file, condition = cond, enabled = True, hitCount = 0,
      watchVariable = [], memoryCondition = []\<rparr>"

text \<open>
  \<^verbatim>\<open>std::map<int, EnhancedBreakpoint> breakpoints\<close> is iterated by
  \<^verbatim>\<open>checkVariableWatchBreakpoint\<close>, in ascending key order: it is modelled as the list of
  its entries in that order. \<open>map_assign\<close> is \<^verbatim>\<open>m[k] = v\<close>, \<open>map_of\<close> is \<^verbatim>\<open>m.find(k)\<close>,
  \<open>map_modify\<close> writes through the iterator \<^verbatim>\<open>find\<close> returned, \<open>map_erase\<close> is
  \<^verbatim>\<open>m.erase(it)\<close>.
\<close>

fun map_assign :: "int \<Rightarrow> 'v \<Rightarrow> (int \<times> 'v) list \<Rightarrow> (int \<times> 'v) list" where
  "map_assign k v [] = [(k, v)]"
| "map_assign k v ((k', v') # es) =
     (if k < k' then (k, v) # (k', v') # es
      else if k = k' then (k, v) # es
      else (k', v') # map_assign k v es)"

fun map_modify :: "int \<Rightarrow> ('v \<Rightarrow> 'v) \<Rightarrow> (int \<times> 'v) list \<Rightarrow> (int \<times> 'v) list" where
  "map_modify k f [] = []"
| "map_modify k f ((k', v') # es) =
     (if k = k' then (k', f v') # es else (k', v') # map_modify k f es)"

fun map_erase :: "int \<Rightarrow> (int \<times> 'v) list \<Rightarrow> (int \<times> 'v) list" where
  "map_erase k [] = []"
| "map_erase k ((k', v') # es) = (if k = k' then es else (k', v') # map_erase k es)"

record EnhancedBreakpointManager =
  breakpoints :: "(int \<times> EnhancedBreakpoint) list"

definition EnhancedBreakpointManager_init :: EnhancedBreakpointManager where
  "EnhancedBreakpointManager_init = \<lparr>breakpoints = []\<rparr>"

definition addBreakpoint ::
  "int \<Rightarrow> string \<Rightarrow> string \<Rightarrow> EnhancedBreakpointManager \<Rightarrow> EnhancedBreakpointManager" where
  "addBreakpoint ln file cond m =
     m\<lparr>breakpoints := map_assign ln (EnhancedBreakpoint_init ln file cond) (breakpoints m)\<rparr>"

definition addVariableWatchBreakpoint ::
  "int \<Rightarrow> string \<Rightarrow> string \<Rightarrow> EnhancedBreakpointManager \<Rightarrow> EnhancedBreakpointManager" where
  "addVariableWatchBreakpoint ln varName cond m =
     (let bp = (EnhancedBreakpoint_init ln [] cond)
                 \<lparr>watchVariable := varName, memoryCondition := cond\<rparr>
      in m\<lparr>breakpoints := map_assign ln bp (breakpoints m)\<rparr>)"

definition removeBreakpoint :: "int \<Rightarrow> EnhancedBreakpointManager \<Rightarrow> EnhancedBreakpointManager" where
  "removeBreakpoint ln m = m\<lparr>breakpoints := map_erase ln (breakpoints m)\<rparr>"

definition hasBreakpoint :: "int \<Rightarrow> EnhancedBreakpointManager \<Rightarrow> bool \<times> EnhancedBreakpointManager" where
  \<comment> \<open>The method is not \<^verbatim>\<open>const\<close>: it returns its result and the manager it leaves.\<close>
  "hasBreakpoint ln m =
     (case map_of (breakpoints m) ln of
        None \<Rightarrow> (False, m)
      | Some bp \<Rightarrow> (enabled bp, m))"

definition hitBreakpoint :: "int \<Rightarrow> EnhancedBreakpointManager \<Rightarrow> EnhancedBreakpointManager" where
  "hitBreakpoint ln m =
     m\<lparr>breakpoints := map_modify ln (\<lambda>bp. bp\<lparr>hitCount := hitCount bp + 1\<rparr>) (breakpoints m)\<rparr>"

definition toggleBreakpoint :: "int \<Rightarrow> EnhancedBreakpointManager \<Rightarrow> EnhancedBreakpointManager" where
  "toggleBreakpoint ln m =
     m\<lparr>breakpoints := map_modify ln (\<lambda>bp. bp\<lparr>enabled := \<not> enabled bp\<rparr>) (breakpoints m)\<rparr>"

definition watch_condition_met :: "EnhancedBreakpoint \<Rightarrow> string \<Rightarrow> string \<Rightarrow> bool" where
  \<comment> \<open>The body of the loop of \<^verbatim>\<open>checkVariableWatchBreakpoint\<close> after \<^verbatim>\<open>bp.hitCount++\<close>:
      true where it returns true, false where it goes on to the next entry.
      \<^verbatim>\<open>memoryCondition.substr(memoryCondition.find("=") + 1)\<close> is what follows the first
      \<^verbatim>\<open>=\<close>.\<close>
  "watch_condition_met bp oldValue newValue =
     (if memoryCondition bp \<noteq> [] then
        (if memoryCondition bp = ''changed'' \<and> oldValue \<noteq> newValue then True
         else if CHR ''='' \<in> set (memoryCondition bp) then
           (let expectedValue =
                  drop (length (takeWhile (\<lambda>c. c \<noteq> CHR ''='') (memoryCondition bp)) + 1)
                    (memoryCondition bp)
            in newValue = expectedValue)
         else False)
      else oldValue \<noteq> newValue)"

fun watch_loop ::
  "string \<Rightarrow> string \<Rightarrow> string \<Rightarrow> (int \<times> EnhancedBreakpoint) list
     \<Rightarrow> bool \<times> (int \<times> EnhancedBreakpoint) list" where
  \<comment> \<open>\<^verbatim>\<open>for (auto& [line, bp] : breakpoints)\<close> with its early \<^verbatim>\<open>return true\<close>.\<close>
  "watch_loop varName oldValue newValue [] = (False, [])"
| "watch_loop varName oldValue newValue ((l, bp) # es) =
     (if enabled bp \<and> watchVariable bp = varName then
        (let bp' = bp\<lparr>hitCount := hitCount bp + 1\<rparr> in
         if watch_condition_met bp' oldValue newValue then (True, (l, bp') # es)
         else (let (res, es') = watch_loop varName oldValue newValue es
               in (res, (l, bp') # es')))
      else (let (res, es') = watch_loop varName oldValue newValue es
            in (res, (l, bp) # es')))"

definition checkVariableWatchBreakpoint ::
  "string \<Rightarrow> string \<Rightarrow> string \<Rightarrow> EnhancedBreakpointManager
     \<Rightarrow> bool \<times> EnhancedBreakpointManager" where
  "checkVariableWatchBreakpoint varName oldValue newValue m =
     (let (res, es) = watch_loop varName oldValue newValue (breakpoints m)
      in (res, m\<lparr>breakpoints := es\<rparr>))"

text \<open>
  \<^verbatim>\<open>DebugConsole::setBreakpoint\<close> and \<^verbatim>\<open>DebugConsole::setVariableBreakpoint\<close>, on the
  console's breakpoint manager; \<open>script\<close> is what the execution controller reports as the
  current script.
\<close>

definition setBreakpoint ::
  "string \<Rightarrow> int \<Rightarrow> EnhancedBreakpointManager \<Rightarrow> EnhancedBreakpointManager" where
  "setBreakpoint script ln m = addBreakpoint ln script [] m"

definition setVariableBreakpoint ::
  "string \<Rightarrow> EnhancedBreakpointManager \<Rightarrow> EnhancedBreakpointManager" where
  \<comment> \<open>\<^verbatim>\<open>breakpointManager->addVariableWatchBreakpoint(0, varname); // Watch on any line\<close>\<close>
  "setVariableBreakpoint varname m = addVariableWatchBreakpoint 0 varname [] m"

section \<open>MemoryAwareVariableTracker\<close>

text \<open>
  The two \<^verbatim>\<open>std::map<std::string, EnhancedVariableInfo>\<close> are only searched and assigned
  by the operations below: they are partial functions. The scope stack is a
  \<^verbatim>\<open>std::vector\<close> whose \<^verbatim>\<open>back()\<close> is the last element of the list. The
  \<^verbatim>\<open>std::function\<close> \<open>variableChangeCallback\<close> is modelled by whether it holds a target;
  \<open>addVariable\<close> returns, beside the tracker it leaves, the argument triples of the
  calls it made to it, in order.
\<close>

record MemoryAwareVariableTracker =
  globalVariables :: "string \<rightharpoonup> EnhancedVariableInfo"
  scopeStack :: "(string \<rightharpoonup> EnhancedVariableInfo) list"
  realTimeMonitoring :: bool
  variableChangeCallback :: bool

definition MemoryAwareVariableTracker_init :: MemoryAwareVariableTracker where
  "MemoryAwareVariableTracker_init =
     \<lparr>globalVariables = Map.empty, scopeStack = [], realTimeMonitoring = True,
      variableChangeCallback = False\<rparr>"

definition enableRealTimeMonitoring ::
  "bool \<Rightarrow> MemoryAwareVariableTracker \<Rightarrow> MemoryAwareVariableTracker" where
  "enableRealTimeMonitoring enable t = t\<lparr>realTimeMonitoring := enable\<rparr>"

definition setVariableChangeCallback :: "MemoryAwareVariableTracker \<Rightarrow> MemoryAwareVariableTracker" where
  \<comment> \<open>The caller passes a callback that holds a target.\<close>
  "setVariableChangeCallback t = t\<lparr>variableChangeCallback := True\<rparr>"

datatype var_ref = TopScope | GlobalScope

definition getVariableInfo ::
  "MemoryAwareVariableTracker \<Rightarrow> string \<Rightarrow> (var_ref \<times> EnhancedVariableInfo) option" where
  \<comment> \<open>The pointer returned: the map it points into and the record it points at;
      \<open>None\<close> is \<^verbatim>\<open>nullptr\<close>.\<close>
  "getVariableInfo t nm =
     (case (if scopeStack t \<noteq> [] then last (scopeStack t) nm else None) of
        Some r \<Rightarrow> Some (TopScope, r)
      | None \<Rightarrow>
          (case globalVariables t nm of
             Some r \<Rightarrow> Some (GlobalScope, r)
           | None \<Rightarrow> None))"

fun write_ref ::
  "var_ref \<Rightarrow> string \<Rightarrow> EnhancedVariableInfo \<Rightarrow> MemoryAwareVariableTracker
     \<Rightarrow> MemoryAwareVariableTracker" where
  \<comment> \<open>A write through the pointer \<open>getVariableInfo\<close> returned.\<close>
  "write_ref TopScope nm r t =
     t\<lparr>scopeStack := butlast (scopeStack t) @ [(last (scopeStack t))(nm \<mapsto> r)]\<rparr>"
| "write_ref GlobalScope nm r t = t\<lparr>globalVariables := (globalVariables t)(nm \<mapsto> r)\<rparr>"

definition addVariable ::
  "(string \<Rightarrow> bool) \<Rightarrow> string \<Rightarrow> string \<Rightarrow> string \<Rightarrow> int \<Rightarrow> MemoryAwareVariableTracker
     \<Rightarrow> MemoryAwareVariableTracker \<times> (string \<times> string \<times> string) list" where
  "addVariable erange nm v sc ln t =
     (let existingVar = getVariableInfo t nm;
          oldValue = (case existingVar of Some (p, r) \<Rightarrow> value' r | None \<Rightarrow> []);
          t' = (case existingVar of
                  Some (p, r) \<Rightarrow> write_ref p nm (updateValue erange v ln r) t
                | None \<Rightarrow>
                    (let var = (EnhancedVariableInfo_init erange nm v sc)\<lparr>lastModifiedLine := ln\<rparr>
                     in if sc = ''global''
                          then t\<lparr>globalVariables := (globalVariables t)(nm \<mapsto> var)\<rparr>
                        else if scopeStack t \<noteq> []
                          then t\<lparr>scopeStack :=
                                   butlast (scopeStack t) @ [(last (scopeStack t))(nm \<mapsto> var)]\<rparr>
                        else t))
      in (t', if variableChangeCallback t then [(nm, oldValue, v)] else []))"

definition pushScope :: "MemoryAwareVariableTracker \<Rightarrow> MemoryAwareVariableTracker" where
  "pushScope t = t\<lparr>scopeStack := scopeStack t @ [Map.empty]\<rparr>"

definition popScope :: "MemoryAwareVariableTracker \<Rightarrow> MemoryAwareVariableTracker" where
  "popScope t = (if scopeStack t \<noteq> [] then t\<lparr>scopeStack := butlast (scopeStack t)\<rparr> else t)"

section \<open>Runs of the operations\<close>

text \<open>
  The properties below speak of sequences of calls. \<open>updateValues\<close> applies
  \<open>updateValue\<close> to one record for each (value, line) of a list, in order;
  \<open>addVariables\<close> calls \<open>addVariable\<close> for one name with each (value, scope, line)
  of a list, in order; \<open>reachable\<close> holds of the trackers that the public operations
  produce from a new tracker.
\<close>

fun updateValues ::
  "(string \<Rightarrow> bool) \<Rightarrow> (string \<times> int) list \<Rightarrow> EnhancedVariableInfo \<Rightarrow> EnhancedVariableInfo" where
  "updateValues erange [] r = r"
| "updateValues erange ((v, ln) # ups) r = updateValues erange ups (updateValue erange v ln r)"

fun addVariables ::
  "(string \<Rightarrow> bool) \<Rightarrow> string \<Rightarrow> (string \<times> string \<times> int) list \<Rightarrow> MemoryAwareVariableTracker
     \<Rightarrow> MemoryAwareVariableTracker" where
  "addVariables erange nm [] t = t"
| "addVariables erange nm ((v, sc, ln) # calls) t =
     addVariables erange nm calls (fst (addVariable erange nm v sc ln t))"

inductive reachable :: "(string \<Rightarrow> bool) \<Rightarrow> MemoryAwareVariableTracker \<Rightarrow> bool"
  for erange :: "string \<Rightarrow> bool" where
  reach_init: "reachable erange MemoryAwareVariableTracker_init"
| reach_monitor: "reachable erange t \<Longrightarrow> reachable erange (enableRealTimeMonitoring enable t)"
| reach_callback: "reachable erange t \<Longrightarrow> reachable erange (setVariableChangeCallback t)"
| reach_add: "reachable erange t \<Longrightarrow> reachable erange (fst (addVariable erange nm v sc ln t))"
| reach_push: "reachable erange t \<Longrightarrow> reachable erange (pushScope t)"
| reach_pop: "reachable erange t \<Longrightarrow> reachable erange (popScope t)"

definition types_fresh :: "(string \<Rightarrow> bool) \<Rightarrow> MemoryAwareVariableTracker \<Rightarrow> bool" where
  \<comment> \<open>Every record of the global map and of every frame of the scope stack carries the
      tag of its current value.\<close>
  "types_fresh erange t =
     ((\<forall>nm r. globalVariables t nm = Some r \<longrightarrow> type r = classify erange (value' r)) \<and>
      (\<forall>f \<in> set (scopeStack t). \<forall>nm r. f nm = Some r \<longrightarrow> type r = classify erange (value' r)))"

section \<open>Facts about the classifier and the record\<close>

lemma stream_tokens_single:
  assumes "\<forall>ch \<in> set c. \<not> isspace ch"
  shows "stream_tokens c = (if c = [] then [] else [c])"
proof (cases c)
  case Nil
  then show ?thesis by (simp add: stream_tokens.simps)
next
  case (Cons a as)
  from assms Cons have d: "dropWhile isspace c = c" by simp
  from assms have t: "takeWhile (\<lambda>ch. \<not> isspace ch) c = c" by simp
  from assms have e: "dropWhile (\<lambda>ch. \<not> isspace ch) c = []" by simp
  have "stream_tokens [] = []" by (simp add: stream_tokens.simps)
  then show ?thesis using Cons d t e
    by (subst stream_tokens.simps) (simp add: Let_def)
qed

lemma analyze_keeps:
  "value' (analyzeTypeAndStructure e r) = value' r"
  "valueHistory (analyzeTypeAndStructure e r) = valueHistory r"
  "accessCount (analyzeTypeAndStructure e r) = accessCount r"
  "previousValue (analyzeTypeAndStructure e r) = previousValue r"
  "lastModifiedLine (analyzeTypeAndStructure e r) = lastModifiedLine r"
  "isEmpty (analyzeTypeAndStructure e r) = isEmpty r"
  by (simp_all add: analyzeTypeAndStructure_def Let_def parseList_def parseDictionary_def)

lemma type_analyze:
  "type (analyzeTypeAndStructure e r) =
     (if isEmpty r then ''empty''
      else if isNumericValue e (value' r)
        then (if CHR ''.'' \<in> set (value' r) then ''float'' else ''integer'')
      else if isListValue (value' r) then ''list''
      else if isDictionaryValue (value' r) then ''dictionary''
      else ''string'')"
  by (simp add: analyzeTypeAndStructure_def Let_def parseList_def parseDictionary_def)

lemma classify_eq:
  "classify e v =
     (if v = [] then ''empty''
      else if isNumericValue e v
        then (if CHR ''.'' \<in> set v then ''float'' else ''integer'')
      else if isListValue v then ''list''
      else if isDictionaryValue v then ''dictionary''
      else ''string'')"
  by (simp add: classify_def EnhancedVariableInfo_init_def type_analyze)

lemma init_fields:
  "value' (EnhancedVariableInfo_init e n v s) = v"
  "valueHistory (EnhancedVariableInfo_init e n v s) = []"
  "accessCount (EnhancedVariableInfo_init e n v s) = 0"
  "type (EnhancedVariableInfo_init e n v s) = classify e v"
  by (simp_all add: EnhancedVariableInfo_init_def analyze_keeps type_analyze classify_eq)

lemma update_fields:
  "value' (updateValue e v l r) = v"
  "accessCount (updateValue e v l r) = accessCount r + 1"
  "previousValue (updateValue e v l r) = value' r"
  "type (updateValue e v l r) = classify e v"
  "valueHistory (updateValue e v l r) =
     (if valueHistory r \<noteq> [] \<or> value' r \<noteq> v
      then (if length (valueHistory r @ [value' r]) > 10 then tl (valueHistory r @ [value' r])
            else valueHistory r @ [value' r])
      else valueHistory r)"
  by (simp_all add: updateValue_def Let_def analyze_keeps type_analyze classify_eq)

lemma brace_not_numeric: "\<not> isNumericValue e (CHR ''{'' # s)"
  by (simp add: isNumericValue_def stod_def strtod_converts_def isspace_def isdigit_def
      is_inf_nan_def split: list.splits)

lemma strip_braces_wrapped: "strip_braces (CHR ''{'' # c @ [CHR ''}'']) = c"
  by (simp add: strip_braces_def)

section \<open>Facts about the breakpoint map and the value history\<close>

lemma map_of_map_assign:
  "map_of (map_assign k v es) k' = (if k' = k then Some v else map_of es k')"
  by (induction es) auto

lemma map_of_map_modify:
  "map_of (map_modify k f es) k' =
     (if k' = k then map_option f (map_of es k) else map_of es k')"
  by (induction es) auto

lemma watch_loop_none:
  "filter (\<lambda>(l, bp). enabled bp \<and> watchVariable bp = v) es = []
   \<Longrightarrow> watch_loop v old new es = (False, es)"
  by (induction es) (auto split: prod.splits)

lemma watch_loop_one:
  "filter (\<lambda>(l, bp). enabled bp \<and> watchVariable bp = v) es = [(l0, bp0)]
   \<Longrightarrow> fst (watch_loop v old new es) = watch_condition_met bp0 old new"
proof (induction es)
  case Nil
  then show ?case by simp
next
  case (Cons e es)
  obtain l bp where e: "e = (l, bp)" by (cases e)
  show ?case
  proof (cases "enabled bp \<and> watchVariable bp = v")
    case True
    with Cons.prems e have eq: "(l, bp) = (l0, bp0)"
      and rest: "filter (\<lambda>(l, bp). enabled bp \<and> watchVariable bp = v) es = []" by auto
    have c: "watch_condition_met (bp\<lparr>hitCount := hitCount bp + 1\<rparr>) old new = watch_condition_met bp old new"
      by (simp add: watch_condition_met_def)
    from True e eq c watch_loop_none [OF rest, of old new] show ?thesis
      by (auto simp: Let_def split: prod.splits)
  next
    case False
    with Cons.prems e have "filter (\<lambda>(l, bp). enabled bp \<and> watchVariable bp = v) es = [(l0, bp0)]"
      by auto
    from Cons.IH [OF this] False e show ?thesis by (auto split: prod.splits)
  qed
qed

lemma last10_push:
  assumes "length h \<le> 10"
  shows "(if length (h @ [x]) > 10 then tl (h @ [x]) else h @ [x])
         = drop (length (h @ [x]) - 10) (h @ [x])"
proof (cases "length h = 10")
  case True
  then have "length (h @ [x]) - 10 = Suc 0" and "length (h @ [x]) > 10" and "h \<noteq> []"
    by auto
  then show ?thesis by (simp add: drop_Suc)
next
  case False
  with assms show ?thesis by simp
qed

lemma last10_append:
  "drop (length (drop (length xs - 10) xs @ ys) - 10) (drop (length xs - 10) xs @ ys)
   = drop (length (xs @ ys) - 10) (xs @ ys)"
proof (cases "length xs \<le> 10")
  case True
  then show ?thesis by simp
next
  case False
  then have a: "length (drop (length xs - 10) xs) = 10" by simp
  have "drop (length (drop (length xs - 10) xs @ ys) - 10) (drop (length xs - 10) xs @ ys)
        = drop (length ys) (drop (length xs - 10) (xs @ ys))"
    using a False by simp
  also have "\<dots> = drop (length ys + (length xs - 10)) (xs @ ys)" by (simp only: drop_drop)
  also have "length ys + (length xs - 10) = length (xs @ ys) - 10" using False by simp
  finally show ?thesis .
qed

lemma updateValues_history_nonempty:
  assumes "valueHistory r \<noteq> []" and "length (valueHistory r) \<le> 10"
  shows "valueHistory (updateValues e ups r) =
           drop (length (valueHistory r @ butlast (value' r # map fst ups)) - 10)
             (valueHistory r @ butlast (value' r # map fst ups))"
  using assms
proof (induction ups arbitrary: r)
  case Nil
  then show ?case by simp
next
  case (Cons u ups)
  obtain v l where u: "u = (v, l)" by (cases u)
  let ?r = "updateValue e v l r"
  let ?h = "valueHistory r @ [value' r]"
  have h: "valueHistory ?r = drop (length ?h - 10) ?h"
    using Cons.prems last10_push [of "valueHistory r" "value' r"] by (simp add: update_fields)
  have ne: "valueHistory ?r \<noteq> []" using h by simp
  have le: "length (valueHistory ?r) \<le> 10" using h by simp
  have v: "value' ?r = v" by (simp add: update_fields)
  have "valueHistory (updateValues e (u # ups) r) =
          drop (length (valueHistory ?r @ butlast (v # map fst ups)) - 10)
            (valueHistory ?r @ butlast (v # map fst ups))"
    using Cons.IH [OF ne le] u v by simp
  also have "\<dots> = drop (length (?h @ butlast (v # map fst ups)) - 10) (?h @ butlast (v # map fst ups))"
    unfolding h by (rule last10_append)
  finally show ?case using u by simp
qed

section \<open>Facts about the tracker\<close>

lemma getVariableInfo_None:
  "getVariableInfo t nm = None \<longleftrightarrow>
     (scopeStack t = [] \<or> last (scopeStack t) nm = None) \<and> globalVariables t nm = None"
  by (auto simp: getVariableInfo_def split: option.splits)

lemma getVariableInfo_after_update:
  assumes "getVariableInfo t nm = Some (p, r)"
  shows "getVariableInfo (fst (addVariable e nm v sc ln t)) nm = Some (p, updateValue e v ln r)"
  using assms
  by (cases p) (auto simp: getVariableInfo_def addVariable_def Let_def split: option.splits if_splits)

lemma getVariableInfo_after_create:
  assumes "getVariableInfo t nm = None" and "sc = ''global'' \<or> scopeStack t \<noteq> []"
  shows "\<exists>p. getVariableInfo (fst (addVariable e nm v sc ln t)) nm
           = Some (p, (EnhancedVariableInfo_init e nm v sc)\<lparr>lastModifiedLine := ln\<rparr>)"
  using assms
  by (auto simp: getVariableInfo_def addVariable_def Let_def split: option.splits if_splits)

lemma addVariables_existing:
  assumes "getVariableInfo t nm = Some (p, r)"
  shows "\<exists>r'. getVariableInfo (addVariables e nm calls t) nm = Some (p, r')
            \<and> accessCount r' = accessCount r + int (length calls)"
  using assms
proof (induction calls arbitrary: t r)
  case Nil
  then show ?case by simp
next
  case (Cons c calls)
  obtain v sc ln where c: "c = (v, sc, ln)" by (cases c)
  from getVariableInfo_after_update [OF Cons.prems, of e v sc ln]
  have "getVariableInfo (fst (addVariable e nm v sc ln t)) nm = Some (p, updateValue e v ln r)" .
  from Cons.IH [OF this] c show ?case by (auto simp: update_fields)
qed

lemma fresh_update: "type (updateValue e v l r) = classify e (value' (updateValue e v l r))"
  by (simp add: update_fields)

lemma fresh_init:
  "type ((EnhancedVariableInfo_init e n v s)\<lparr>lastModifiedLine := l\<rparr>)
     = classify e (value' ((EnhancedVariableInfo_init e n v s)\<lparr>lastModifiedLine := l\<rparr>))"
  by (simp add: init_fields)

lemma frame_update_fresh:
  assumes "\<forall>f \<in> set ss. \<forall>nm r. f nm = Some r \<longrightarrow> type r = classify e (value' r)"
    and "ss \<noteq> []" and "type r' = classify e (value' r')"
  shows "\<forall>f \<in> set (butlast ss @ [(last ss)(n \<mapsto> r')]). \<forall>nm r. f nm = Some r \<longrightarrow> type r = classify e (value' r)"
proof
  fix f assume f: "f \<in> set (butlast ss @ [(last ss)(n \<mapsto> r')])"
  show "\<forall>nm r. f nm = Some r \<longrightarrow> type r = classify e (value' r)"
  proof (cases "f \<in> set (butlast ss)")
    case True
    then have "f \<in> set ss" by (rule in_set_butlastD)
    with assms(1) show ?thesis by blast
  next
    case False
    with f have feq: "f = (last ss)(n \<mapsto> r')" by simp
    from assms(2) have "last ss \<in> set ss" by simp
    with assms(1) have "\<forall>nm r. last ss nm = Some r \<longrightarrow> type r = classify e (value' r)" by blast
    with feq assms(3) show ?thesis by auto
  qed
qed

lemma types_fresh_addVariable:
  assumes "types_fresh e t"
  shows "types_fresh e (fst (addVariable e nm v sc ln t))"
proof (cases "getVariableInfo t nm")
  case None
  let ?var = "(EnhancedVariableInfo_init e nm v sc)\<lparr>lastModifiedLine := ln\<rparr>"
  show ?thesis
  proof (cases "sc = ''global''")
    case True
    with None assms show ?thesis
      by (auto simp: addVariable_def Let_def types_fresh_def init_fields)
  next
    case False
    show ?thesis
    proof (cases "scopeStack t = []")
      case True
      with None False assms show ?thesis by (simp add: addVariable_def Let_def)
    next
      case ne: False
      from assms have "\<forall>f \<in> set (scopeStack t). \<forall>nm r. f nm = Some r \<longrightarrow> type r = classify e (value' r)"
        by (simp add: types_fresh_def)
      from frame_update_fresh [OF this ne fresh_init [where e = e and n = nm and v = v and s = sc and l = ln], of nm]
      show ?thesis using None False ne assms
        by (simp add: addVariable_def Let_def types_fresh_def)
    qed
  qed
next
  case (Some a)
  obtain p r where a: "a = (p, r)" by (cases a)
  show ?thesis
  proof (cases p)
    case TopScope
    with Some a have ne: "scopeStack t \<noteq> []"
      by (auto simp: getVariableInfo_def split: option.splits if_splits)
    from assms have "\<forall>f \<in> set (scopeStack t). \<forall>nm r. f nm = Some r \<longrightarrow> type r = classify e (value' r)"
      by (simp add: types_fresh_def)
    from frame_update_fresh [OF this ne fresh_update [where e = e and v = v and l = ln and r = r], of nm]
    show ?thesis using Some a TopScope assms
      by (simp add: addVariable_def Let_def types_fresh_def)
  next
    case GlobalScope
    with Some a assms show ?thesis
      by (auto simp: addVariable_def Let_def types_fresh_def update_fields)
  qed
qed

section \<open>The claims\<close>

text \<open>
  C1 (amended). For a variable \<open>x\<close> first set in the global scope to \<open>g\<close>, then, after
  \<^verbatim>\<open>pushScope\<close>, set with a local scope to \<open>l\<close>: \<^verbatim>\<open>addVariable\<close> resolves \<open>x\<close> to the
  existing global record and updates it in place; no record is created in the pushed
  frame. The lookup of \<open>x\<close> returns the value \<open>l\<close> while the scope is pushed, and after
  \<^verbatim>\<open>popScope\<close> it still returns \<open>l\<close>, with \<open>g\<close> as the previous value.
\<close>

theorem local_set_updates_visible_global:
  assumes "getVariableInfo t x = None"
  shows "map_option (value' \<circ> snd) (getVariableInfo
            (fst (addVariable erange x l sc ln2 (pushScope (fst (addVariable erange x g ''global'' ln1 t))))) x)
          = Some l
       \<and> last (scopeStack
            (fst (addVariable erange x l sc ln2 (pushScope (fst (addVariable erange x g ''global'' ln1 t)))))) x
          = None
       \<and> map_option (\<lambda>(p, r). (value' r, previousValue r)) (getVariableInfo
            (popScope (fst (addVariable erange x l sc ln2
              (pushScope (fst (addVariable erange x g ''global'' ln1 t)))))) x)
          = Some (l, g)"
  using assms
  by (auto simp: getVariableInfo_def addVariable_def pushScope_def popScope_def Let_def
      update_fields init_fields split: option.splits if_splits)

text \<open>The amended C1 on a new tracker, for \<^verbatim>\<open>x\<close>, \<^verbatim>\<open>g\<close> and \<^verbatim>\<open>l\<close>.\<close>

theorem local_set_updates_visible_global_witness:
  "getVariableInfo MemoryAwareVariableTracker_init ''x'' = None
   \<and> map_option (value' \<circ> snd) (getVariableInfo
        (fst (addVariable erange_never ''x'' ''l'' ''local'' 2
          (pushScope (fst (addVariable erange_never ''x'' ''g'' ''global'' 1
            MemoryAwareVariableTracker_init))))) ''x'') = Some ''l''
   \<and> last (scopeStack
        (fst (addVariable erange_never ''x'' ''l'' ''local'' 2
          (pushScope (fst (addVariable erange_never ''x'' ''g'' ''global'' 1
            MemoryAwareVariableTracker_init)))))) ''x'' = None
   \<and> map_option (\<lambda>(p, r). (value' r, previousValue r)) (getVariableInfo
        (popScope (fst (addVariable erange_never ''x'' ''l'' ''local'' 2
          (pushScope (fst (addVariable erange_never ''x'' ''g'' ''global'' 1
            MemoryAwareVariableTracker_init)))))) ''x'') = Some (''l'', ''g'')"
proof -
  have n: "getVariableInfo MemoryAwareVariableTracker_init ''x'' = None"
    by (simp add: getVariableInfo_def MemoryAwareVariableTracker_init_def)
  from local_set_updates_visible_global [OF n, of erange_never "''l''" "''local''" 2 "''g''" 1] n
  show ?thesis by blast
qed

text \<open>
  C1 as stated fails: after the global set of \<^verbatim>\<open>x\<close> to \<^verbatim>\<open>g\<close>, \<^verbatim>\<open>pushScope\<close>, the local
  set of \<^verbatim>\<open>x\<close> to \<^verbatim>\<open>l\<close> and \<^verbatim>\<open>popScope\<close>, the lookup of \<^verbatim>\<open>x\<close> returns \<^verbatim>\<open>l\<close>, not
  \<^verbatim>\<open>g\<close>: the global record was overwritten.
\<close>

theorem shadowed_global_is_overwritten:
  "map_option (value' \<circ> snd) (getVariableInfo
     (popScope (fst (addVariable erange_never ''x'' ''l'' ''local'' 2
       (pushScope (fst (addVariable erange_never ''x'' ''g'' ''global'' 1
         MemoryAwareVariableTracker_init)))))) ''x'') = Some ''l''
   \<and> map_option value' (globalVariables
     (popScope (fst (addVariable erange_never ''x'' ''l'' ''local'' 2
       (pushScope (fst (addVariable erange_never ''x'' ''g'' ''global'' 1
         MemoryAwareVariableTracker_init)))))) ''x'') \<noteq> Some ''g''"
  by (simp add: getVariableInfo_def addVariable_def pushScope_def popScope_def Let_def
      MemoryAwareVariableTracker_init_def update_fields init_fields)

text \<open>
  C2 (amended). For every line \<open>L\<close> holding an enabled breakpoint, the line-hit check
  \<^verbatim>\<open>hasBreakpoint(L)\<close> returns true and leaves the manager as it was, its \<open>hitCount\<close>
  included; the count is incremented by one by each call of the separate
  \<^verbatim>\<open>hitBreakpoint(L)\<close>.
\<close>

theorem line_check_pure_hit_counts:
  assumes "map_of (breakpoints m) L = Some bp" and "enabled bp"
  shows "hasBreakpoint L m = (True, m)
       \<and> map_of (breakpoints (hitBreakpoint L m)) L = Some (bp\<lparr>hitCount := hitCount bp + 1\<rparr>)"
  using assms by (simp add: hasBreakpoint_def hitBreakpoint_def map_of_map_modify)

text \<open>
  The amended C2 after \<^verbatim>\<open>setBreakpoint(20)\<close>: the check returns true and changes
  nothing; one \<^verbatim>\<open>hitBreakpoint(20)\<close> makes the count 1.
\<close>

theorem line_check_pure_hit_counts_witness:
  "map_of (breakpoints (setBreakpoint ''a.tcl'' 20 EnhancedBreakpointManager_init)) 20
     = Some (EnhancedBreakpoint_init 20 ''a.tcl'' [])
   \<and> enabled (EnhancedBreakpoint_init 20 ''a.tcl'' [])
   \<and> hasBreakpoint 20 (setBreakpoint ''a.tcl'' 20 EnhancedBreakpointManager_init)
       = (True, setBreakpoint ''a.tcl'' 20 EnhancedBreakpointManager_init)
   \<and> map_option hitCount (map_of (breakpoints
        (hitBreakpoint 20 (setBreakpoint ''a.tcl'' 20 EnhancedBreakpointManager_init))) 20) = Some 1"
  using line_check_pure_hit_counts [of "setBreakpoint ''a.tcl'' 20 EnhancedBreakpointManager_init" 20
      "EnhancedBreakpoint_init 20 ''a.tcl'' []"]
  by (simp add: setBreakpoint_def addBreakpoint_def EnhancedBreakpointManager_init_def
      EnhancedBreakpoint_init_def)

text \<open>
  C2 as stated fails: after a breakpoint is set at line 20, two calls of the check return
  true both times and the \<open>hitCount\<close> is 0, not 2.
\<close>

theorem two_line_checks_count_nothing:
  "fst (hasBreakpoint 20 (setBreakpoint ''a.tcl'' 20 EnhancedBreakpointManager_init)) = True
   \<and> fst (hasBreakpoint 20 (snd (hasBreakpoint 20
        (setBreakpoint ''a.tcl'' 20 EnhancedBreakpointManager_init)))) = True
   \<and> map_option hitCount (map_of (breakpoints
        (snd (hasBreakpoint 20 (snd (hasBreakpoint 20
          (setBreakpoint ''a.tcl'' 20 EnhancedBreakpointManager_init)))))) 20) = Some 0"
  by (simp add: hasBreakpoint_def setBreakpoint_def addBreakpoint_def EnhancedBreakpointManager_init_def
      EnhancedBreakpoint_init_def)

text \<open>
  C3 (amended). Watch breakpoints live in the same map as line breakpoints and are keyed
  by the line they are added under, not by the variable name: of two watches added one
  after the other, the second is stored under its key, and the first is still stored
  exactly when the two keys differ; under one key the second replaces the first.
  \<^verbatim>\<open>DebugConsole::setVariableBreakpoint\<close> adds every watch under the key 0.
\<close>

theorem watches_keyed_by_line:
  "map_of (breakpoints (addVariableWatchBreakpoint l2 b c2 (addVariableWatchBreakpoint l1 a c1 m))) l2
     = Some ((EnhancedBreakpoint_init l2 [] c2)\<lparr>watchVariable := b, memoryCondition := c2\<rparr>)
   \<and> map_of (breakpoints (addVariableWatchBreakpoint l2 b c2 (addVariableWatchBreakpoint l1 a c1 m))) l1
     = (if l1 = l2
        then Some ((EnhancedBreakpoint_init l2 [] c2)\<lparr>watchVariable := b, memoryCondition := c2\<rparr>)
        else Some ((EnhancedBreakpoint_init l1 [] c1)\<lparr>watchVariable := a, memoryCondition := c1\<rparr>))
   \<and> map_option watchVariable
       (map_of (breakpoints (setVariableBreakpoint b (setVariableBreakpoint a m))) 0) = Some b"
  by (simp add: setVariableBreakpoint_def addVariableWatchBreakpoint_def Let_def map_of_map_assign
      EnhancedBreakpoint_init_def)

text \<open>
  C3 as stated fails: after the console sets a watch on \<^verbatim>\<open>a\<close> and then a watch on
  \<^verbatim>\<open>b\<close>, the registry holds one entry, the watch on \<^verbatim>\<open>b\<close>; so it does after the
  two watches are added to the manager under the one line 5.
\<close>

theorem second_watch_replaces_first:
  "map (\<lambda>(l, bp). (l, watchVariable bp))
     (breakpoints (setVariableBreakpoint ''b'' (setVariableBreakpoint ''a'' EnhancedBreakpointManager_init)))
   = [(0, ''b'')]
   \<and> map (\<lambda>(l, bp). (l, watchVariable bp))
     (breakpoints (addVariableWatchBreakpoint 5 ''b'' []
        (addVariableWatchBreakpoint 5 ''a'' [] EnhancedBreakpointManager_init)))
   = [(5, ''b'')]"
  by (simp add: setVariableBreakpoint_def addVariableWatchBreakpoint_def Let_def
      EnhancedBreakpointManager_init_def EnhancedBreakpoint_init_def)

text \<open>
  C4. With exactly one enabled watch breakpoint bound to the variable, the check of a
  change event (old, new) returns true iff \<open>old \<noteq> new\<close> when its condition is
  \<^verbatim>\<open>changed\<close>, and returns true iff \<open>new\<close> is \<^verbatim>\<open>100\<close>, for every \<open>old\<close>, when its
  condition is \<^verbatim>\<open>=100\<close>.
\<close>

theorem watch_condition_semantics:
  assumes "filter (\<lambda>(l, bp). enabled bp \<and> watchVariable bp = v) (breakpoints m) = [(l0, bp0)]"
  shows "(memoryCondition bp0 = ''changed'' \<longrightarrow>
            fst (checkVariableWatchBreakpoint v old new m) = (old \<noteq> new))
       \<and> (memoryCondition bp0 = ''=100'' \<longrightarrow>
            fst (checkVariableWatchBreakpoint v old new m) = (new = ''100''))"
proof -
  have "fst (checkVariableWatchBreakpoint v old new m) = watch_condition_met bp0 old new"
    using watch_loop_one [OF assms, of old new]
    by (auto simp: checkVariableWatchBreakpoint_def split: prod.splits)
  then show ?thesis by (auto simp: watch_condition_met_def)
qed

text \<open>
  C4 on the variable \<^verbatim>\<open>counter\<close>: a \<^verbatim>\<open>changed\<close> watch fires on 1 to 2 and not on 5
  to 5; a \<^verbatim>\<open>=100\<close> watch fires on 100 to 100 and not on 1 to 2.
\<close>

theorem watch_condition_semantics_witness:
  "fst (checkVariableWatchBreakpoint ''counter'' ''1'' ''2''
         (addVariableWatchBreakpoint 0 ''counter'' ''changed'' EnhancedBreakpointManager_init)) = True
   \<and> fst (checkVariableWatchBreakpoint ''counter'' ''5'' ''5''
         (addVariableWatchBreakpoint 0 ''counter'' ''changed'' EnhancedBreakpointManager_init)) = False
   \<and> fst (checkVariableWatchBreakpoint ''counter'' ''100'' ''100''
         (addVariableWatchBreakpoint 0 ''counter'' ''=100'' EnhancedBreakpointManager_init)) = True
   \<and> fst (checkVariableWatchBreakpoint ''counter'' ''1'' ''2''
         (addVariableWatchBreakpoint 0 ''counter'' ''=100'' EnhancedBreakpointManager_init)) = False"
proof -
  let ?c = "(EnhancedBreakpoint_init 0 [] ''changed'')
              \<lparr>watchVariable := ''counter'', memoryCondition := ''changed''\<rparr>"
  let ?e = "(EnhancedBreakpoint_init 0 [] ''=100'')
              \<lparr>watchVariable := ''counter'', memoryCondition := ''=100''\<rparr>"
  let ?mc = "addVariableWatchBreakpoint 0 ''counter'' ''changed'' EnhancedBreakpointManager_init"
  let ?me = "addVariableWatchBreakpoint 0 ''counter'' ''=100'' EnhancedBreakpointManager_init"
  have fc: "filter (\<lambda>(l, bp). enabled bp \<and> watchVariable bp = ''counter'') (breakpoints ?mc) = [(0, ?c)]"
    by (simp add: addVariableWatchBreakpoint_def Let_def EnhancedBreakpointManager_init_def
        EnhancedBreakpoint_init_def)
  have fe: "filter (\<lambda>(l, bp). enabled bp \<and> watchVariable bp = ''counter'') (breakpoints ?me) = [(0, ?e)]"
    by (simp add: addVariableWatchBreakpoint_def Let_def EnhancedBreakpointManager_init_def
        EnhancedBreakpoint_init_def)
  have mc: "memoryCondition ?c = ''changed''" and me: "memoryCondition ?e = ''=100''"
    by (simp_all add: EnhancedBreakpoint_init_def)
  from watch_condition_semantics [OF fc, of "''1''" "''2''"] mc
  have 1: "fst (checkVariableWatchBreakpoint ''counter'' ''1'' ''2'' ?mc) = True" by simp
  from watch_condition_semantics [OF fc, of "''5''" "''5''"] mc
  have 2: "fst (checkVariableWatchBreakpoint ''counter'' ''5'' ''5'' ?mc) = False" by simp
  from watch_condition_semantics [OF fe, of "''100''" "''100''"] me
  have 3: "fst (checkVariableWatchBreakpoint ''counter'' ''100'' ''100'' ?me) = True" by simp
  from watch_condition_semantics [OF fe, of "''1''" "''2''"] me
  have 4: "fst (checkVariableWatchBreakpoint ''counter'' ''1'' ''2'' ?me) = False" by simp
  from 1 2 3 4 show ?thesis by blast
qed

text \<open>
  C5. A record that, after its creation with the value \<open>v0\<close>, is updated \<open>N \<ge> 11\<close>
  times with pairwise distinct values has a history of length exactly 10: the 10 most
  recent prior values (the last 10 of \<open>v0\<close> followed by all update values but the
  last), oldest first and most recent last.
\<close>

theorem history_bound:
  assumes "distinct (map fst ups)" and "length ups \<ge> 11"
  shows "valueHistory (updateValues erange ups (EnhancedVariableInfo_init erange n v0 s))
           = drop (length ups - 10) (v0 # butlast (map fst ups))
       \<and> length (valueHistory (updateValues erange ups (EnhancedVariableInfo_init erange n v0 s))) = 10"
proof -
  let ?r0 = "EnhancedVariableInfo_init erange n v0 s"
  from assms(2) obtain u1 u2 rest where ups: "ups = u1 # u2 # rest" and lr: "length rest \<ge> 9"
    by (cases ups; cases "tl ups") auto
  obtain v1 l1 where u1: "u1 = (v1, l1)" by (cases u1)
  obtain v2 l2 where u2: "u2 = (v2, l2)" by (cases u2)
  let ?r1 = "updateValue erange v1 l1 ?r0"
  let ?Q = "v1 # butlast (v2 # map fst rest)"
  have P: "v0 # butlast (map fst ups) = v0 # ?Q" using ups u1 u2 by simp
  have lenQ: "length ?Q = Suc (length rest)" by simp
  have lenups: "length ups = Suc (length ?Q)" using ups by simp
  have v1: "value' ?r1 = v1" by (simp add: update_fields)
  have eq: "valueHistory (updateValues erange ups ?r0) = drop (length ups - 10) (v0 # ?Q)"
  proof (cases "v0 = v1")
    case False
    then have h1: "valueHistory ?r1 = [v0]" by (simp add: update_fields init_fields)
    have "valueHistory (updateValues erange (u2 # rest) ?r1)
          = drop (length (valueHistory ?r1 @ butlast (value' ?r1 # map fst (u2 # rest))) - 10)
              (valueHistory ?r1 @ butlast (value' ?r1 # map fst (u2 # rest)))"
      by (rule updateValues_history_nonempty) (simp_all add: h1)
    also have "valueHistory ?r1 @ butlast (value' ?r1 # map fst (u2 # rest)) = v0 # ?Q"
      using h1 v1 u2 by simp
    also have "length (v0 # ?Q) = length ups" using lenups by simp
    finally show ?thesis using ups u1 by simp
  next
    case True
    then have h1: "valueHistory ?r1 = []" by (simp add: update_fields init_fields)
    let ?r2 = "updateValue erange v2 l2 ?r1"
    from assms(1) ups u1 u2 have "v1 \<noteq> v2" by auto
    then have h2: "valueHistory ?r2 = [v1]" using h1 v1 by (simp add: update_fields)
    have v2: "value' ?r2 = v2" by (simp add: update_fields)
    have "valueHistory (updateValues erange rest ?r2)
          = drop (length (valueHistory ?r2 @ butlast (value' ?r2 # map fst rest)) - 10)
              (valueHistory ?r2 @ butlast (value' ?r2 # map fst rest))"
      by (rule updateValues_history_nonempty) (simp_all add: h2)
    also have "valueHistory ?r2 @ butlast (value' ?r2 # map fst rest) = ?Q"
      using h2 v2 by simp
    finally have "valueHistory (updateValues erange rest ?r2) = drop (length ?Q - 10) ?Q" .
    moreover have "drop (length ups - 10) (v0 # ?Q) = drop (length ?Q - 10) ?Q"
    proof -
      have "length ups - 10 = Suc (length ?Q - 10)" using lenups lenQ lr by simp
      then show ?thesis by (simp only: drop_Suc_Cons)
    qed
    ultimately show ?thesis using ups u1 u2 by simp
  qed
  moreover have "length (drop (length ups - 10) (v0 # ?Q)) = 10"
    using lenups lenQ lr by (simp del: butlast.simps)
  ultimately show ?thesis using P by simp
qed

text \<open>C5 for the creation value 42 and the eleven updates 43, ..., 53.\<close>

theorem history_bound_witness:
  "distinct (map fst [(''43'', 20), (''44'', 21), (''45'', 22), (''46'', 23), (''47'', 24), (''48'', 25),
       (''49'', 26), (''50'', 27), (''51'', 28), (''52'', 29), (''53'', 30 :: int)])
   \<and> length [(''43'', 20), (''44'', 21), (''45'', 22), (''46'', 23), (''47'', 24), (''48'', 25),
       (''49'', 26), (''50'', 27), (''51'', 28), (''52'', 29), (''53'', 30 :: int)] \<ge> 11
   \<and> valueHistory (updateValues erange_never [(''43'', 20), (''44'', 21), (''45'', 22), (''46'', 23), (''47'', 24), (''48'', 25),
       (''49'', 26), (''50'', 27), (''51'', 28), (''52'', 29), (''53'', 30 :: int)]
        (EnhancedVariableInfo_init erange_never ''counter'' ''42'' ''global''))
     = [''43'', ''44'', ''45'', ''46'', ''47'', ''48'', ''49'', ''50'', ''51'', ''52'']"
proof -
  let ?ups = "[(''43'', 20), (''44'', 21), (''45'', 22), (''46'', 23), (''47'', 24), (''48'', 25),
       (''49'', 26), (''50'', 27), (''51'', 28), (''52'', 29), (''53'', 30 :: int)]"
  have d: "distinct (map fst ?ups)" by simp
  have l: "length ?ups \<ge> 11" by simp
  from history_bound [OF d l, of erange_never "''counter''" "''42''" "''global''"]
  have "valueHistory (updateValues erange_never ?ups
          (EnhancedVariableInfo_init erange_never ''counter'' ''42'' ''global''))
        = drop (length ?ups - 10) (''42'' # butlast (map fst ?ups))" by blast
  also have "\<dots> = [''43'', ''44'', ''45'', ''46'', ''47'', ''48'', ''49'', ''50'', ''51'', ''52'']"
    by simp
  finally show ?thesis using d l by blast
qed

text \<open>
  C6 (amended). \<^verbatim>\<open>analyzeTypeAndStructure\<close> gives \<^verbatim>\<open>std::stod\<close> the raw value, braces
  included, and no number starts with a brace; the braces are stripped only inside
  \<^verbatim>\<open>isListValue\<close> and \<^verbatim>\<open>isDictionaryValue\<close>. So a brace-wrapped single token
  (a wrapped content without whitespace) is classified \<^verbatim>\<open>string\<close>, whether or not its
  unwrapped content parses as a number; it is never \<^verbatim>\<open>integer\<close> or \<^verbatim>\<open>float\<close>.
  (The classifier of tcl\_integrated\_debugger.cpp makes it a \<^verbatim>\<open>list\<close>.)
\<close>

theorem brace_wrapped_token_is_string:
  assumes "\<not> list_ex isspace c"
  shows "classify erange (CHR ''{'' # c @ [CHR ''}'']) = ''string''
       \<and> classify_integrated erange (CHR ''{'' # c @ [CHR ''}'']) = ''list''"
proof -
  from assms have t: "\<forall>ch \<in> set c. \<not> isspace ch" by (simp add: list_ex_iff)
  then have "classify erange (CHR ''{'' # c @ [CHR ''}'']) = ''string''"
    by (simp add: classify_eq brace_not_numeric isListValue_def isDictionaryValue_def
        strip_braces_wrapped stream_tokens_single Let_def)
  moreover from t have "classify_integrated erange (CHR ''{'' # c @ [CHR ''}'']) = ''list''"
    by (simp add: classify_integrated_def EnhancedVariableInfo_init_integrated_def
        analyzeTypeAndStructure_integrated_def parseList_def parseDictionary_def
        brace_not_numeric isListValue_integrated_def isDictionaryValue_integrated_def
        strip_braces_wrapped stream_tokens_single Let_def)
  ultimately show ?thesis by simp
qed

text \<open>The amended C6 at the content \<^verbatim>\<open>42\<close>.\<close>

theorem brace_wrapped_token_is_string_witness:
  "\<not> list_ex isspace ''42'' \<and> classify erange_never ''{42}'' = ''string''
   \<and> classify_integrated erange_never ''{42}'' = ''list''"
  using brace_wrapped_token_is_string [of "''42''" erange_never]
  by (simp add: isspace_def)

text \<open>
  C6 as stated fails: the value \<^verbatim>\<open>{42}\<close> is classified \<^verbatim>\<open>string\<close>, not \<^verbatim>\<open>integer\<close>,
  although its unwrapped content \<^verbatim>\<open>42\<close> is classified \<^verbatim>\<open>integer\<close>.
\<close>

theorem brace_wrapped_42_not_integer:
  "classify erange_never ''{42}'' = ''string'' \<and> classify erange_never ''{42}'' \<noteq> ''integer''
   \<and> classify erange_never ''42'' = ''integer''"
  by code_simp

text \<open>
  C7 (amended). \<open>accessCount\<close> counts the updates of a record: the constructor sets it
  to 0 and only \<^verbatim>\<open>updateValue\<close> increments it. Immediately after a variable is first
  created by a set that stores it, its \<open>accessCount\<close> is 0, and after \<open>k\<close> set calls in
  all it is \<open>k - 1\<close>.
\<close>

theorem access_count_counts_updates:
  assumes "getVariableInfo t nm = None" and "sc = ''global'' \<or> scopeStack t \<noteq> []"
  shows "map_option (accessCount \<circ> snd)
           (getVariableInfo (addVariables erange nm ((v, sc, ln) # calls) t) nm)
         = Some (int (length ((v, sc, ln) # calls)) - 1)"
proof -
  from getVariableInfo_after_create [OF assms, of erange v ln]
  obtain p where "getVariableInfo (fst (addVariable erange nm v sc ln t)) nm
           = Some (p, (EnhancedVariableInfo_init erange nm v sc)\<lparr>lastModifiedLine := ln\<rparr>)" by blast
  from addVariables_existing [OF this, of erange calls]
  show ?thesis by (auto simp: init_fields)
qed

text \<open>The amended C7 for the three sets of \<^verbatim>\<open>counter\<close> in the source's demonstration.\<close>

theorem access_count_counts_updates_witness:
  "getVariableInfo MemoryAwareVariableTracker_init ''counter'' = None
   \<and> map_option (accessCount \<circ> snd)
        (getVariableInfo (addVariables erange_never ''counter''
           [(''42'', ''global'', 10), (''43'', ''global'', 20), (''44'', ''global'', 25)]
           MemoryAwareVariableTracker_init) ''counter'') = Some 2"
proof -
  have n: "getVariableInfo MemoryAwareVariableTracker_init ''counter'' = None"
    by (simp add: getVariableInfo_def MemoryAwareVariableTracker_init_def)
  from access_count_counts_updates [OF n, of "''global''" erange_never "''42''" 10
      "[(''43'', ''global'', 20), (''44'', ''global'', 25)]"] n
  show ?thesis by simp
qed

text \<open>
  C7 as stated fails: immediately after a variable is first created by a set, its
  \<open>accessCount\<close> is 0, not 1.
\<close>

theorem access_count_after_creation_is_zero:
  "map_option (accessCount \<circ> snd)
     (getVariableInfo (fst (addVariable erange_never ''x'' ''1'' ''global'' 1
        MemoryAwareVariableTracker_init)) ''x'') = Some 0"
  by (simp add: addVariable_def getVariableInfo_def MemoryAwareVariableTracker_init_def Let_def init_fields)

text \<open>
  C8. In every tracker reachable from a new one by the public operations, so after every
  set, creating or updating, every stored record carries the type tag that classifying
  its current value gives, and so does the record a lookup returns: the tag is never
  stale.
\<close>

theorem type_never_stale:
  assumes "reachable erange t"
  shows "types_fresh erange t
       \<and> (case getVariableInfo t nm of
            None \<Rightarrow> True
          | Some (p, r) \<Rightarrow> type r = classify erange (value' r))"
proof -
  from assms have f: "types_fresh erange t"
  proof (induction rule: reachable.induct)
    case reach_init
    show ?case by (simp add: types_fresh_def MemoryAwareVariableTracker_init_def)
  next
    case (reach_monitor t enable)
    then show ?case by (simp add: types_fresh_def enableRealTimeMonitoring_def)
  next
    case (reach_callback t)
    then show ?case by (simp add: types_fresh_def setVariableChangeCallback_def)
  next
    case (reach_add t nm v sc ln)
    then show ?case by (simp add: types_fresh_addVariable)
  next
    case (reach_push t)
    then show ?case by (auto simp: types_fresh_def pushScope_def)
  next
    case (reach_pop t)
    then show ?case by (auto simp: types_fresh_def popScope_def dest: in_set_butlastD)
  qed
  have "type r = classify erange (value' r)" if "getVariableInfo t nm = Some (p, r)" for p r
  proof (cases p)
    case TopScope
    with that have "scopeStack t \<noteq> []" and "last (scopeStack t) nm = Some r"
      by (auto simp: getVariableInfo_def split: option.splits if_splits)
    then have "last (scopeStack t) \<in> set (scopeStack t)" and "last (scopeStack t) nm = Some r"
      by simp_all
    with f show ?thesis unfolding types_fresh_def by blast
  next
    case GlobalScope
    with that have "globalVariables t nm = Some r"
      by (auto simp: getVariableInfo_def split: option.splits if_splits)
    with f show ?thesis unfolding types_fresh_def by blast
  qed
  with f show ?thesis by (auto split: option.splits)
qed

text \<open>C8 after a global and a local set on a new tracker.\<close>

theorem type_never_stale_witness:
  "reachable erange_never
     (fst (addVariable erange_never ''width'' ''10'' ''local'' 31
       (pushScope (fst (addVariable erange_never ''pi'' ''3.14159'' ''global'' 12
         MemoryAwareVariableTracker_init)))))
   \<and> types_fresh erange_never
     (fst (addVariable erange_never ''width'' ''10'' ''local'' 31
       (pushScope (fst (addVariable erange_never ''pi'' ''3.14159'' ''global'' 12
         MemoryAwareVariableTracker_init)))))"
proof -
  have r: "reachable erange_never
     (fst (addVariable erange_never ''width'' ''10'' ''local'' 31
       (pushScope (fst (addVariable erange_never ''pi'' ''3.14159'' ''global'' 12
         MemoryAwareVariableTracker_init)))))"
    by (intro reachable.intros)
  from type_never_stale [OF r, of "''pi''"] r show ?thesis by blast
qed

text \<open>
  C9. The classifier of tcl\_debugger.cpp and the classifier of
  tcl\_integrated\_debugger.cpp are not extensionally equal: the brace-wrapped single
  non-numeric token \<^verbatim>\<open>{abc}\<close> is a \<^verbatim>\<open>string\<close> for the first and a \<^verbatim>\<open>list\<close> for the
  second, whatever the platform's range check.
\<close>

theorem classifiers_diverge:
  "classify erange ''{abc}'' = ''string'' \<and> classify_integrated erange ''{abc}'' = ''list''
   \<and> (\<exists>s. classify erange s \<noteq> classify_integrated erange s)"
proof -
  have a: "classify erange ''{abc}'' = ''string''" by code_simp
  have b: "classify_integrated erange ''{abc}'' = ''list''" by code_simp
  from a b have "classify erange ''{abc}'' \<noteq> classify_integrated erange ''{abc}''" by simp
  then have "\<exists>s. classify erange s \<noteq> classify_integrated erange s" by blast
  with a b show ?thesis by simp
qed

text \<open>
  C10. If the scope stack is empty and \<^verbatim>\<open>addVariable\<close> is called with a scope other
  than \<^verbatim>\<open>global\<close> for a name defined in no scope, the new record is stored nowhere
  (the tracker is unchanged and a lookup of the name still returns absent), yet the
  installed change callback is invoked exactly once, with the old value \<^verbatim>\<open>""\<close> and the
  new value.
\<close>

theorem unscoped_local_is_dropped:
  assumes "scopeStack t = []" and "sc \<noteq> ''global''" and "getVariableInfo t nm = None"
    and "variableChangeCallback t"
  shows "getVariableInfo (fst (addVariable erange nm v sc ln t)) nm = None
       \<and> fst (addVariable erange nm v sc ln t) = t
       \<and> snd (addVariable erange nm v sc ln t) = [(nm, [], v)]"
  using assms by (simp add: addVariable_def Let_def)

text \<open>C10 on a new tracker with a callback installed, for the local \<^verbatim>\<open>width\<close>.\<close>

theorem unscoped_local_is_dropped_witness:
  "scopeStack (setVariableChangeCallback MemoryAwareVariableTracker_init) = []
   \<and> ''local'' \<noteq> ''global''
   \<and> getVariableInfo (setVariableChangeCallback MemoryAwareVariableTracker_init) ''width'' = None
   \<and> variableChangeCallback (setVariableChangeCallback MemoryAwareVariableTracker_init)
   \<and> getVariableInfo (fst (addVariable erange_never ''width'' ''10'' ''local'' 31
        (setVariableChangeCallback MemoryAwareVariableTracker_init))) ''width'' = None
   \<and> snd (addVariable erange_never ''width'' ''10'' ''local'' 31
        (setVariableChangeCallback MemoryAwareVariableTracker_init)) = [(''width'', [], ''10'')]"
  using unscoped_local_is_dropped [of "setVariableChangeCallback MemoryAwareVariableTracker_init"
      "''local''" "''width''" erange_never "''10''" 31]
  by (simp add: setVariableChangeCallback_def MemoryAwareVariableTracker_init_def getVariableInfo_def)

end
